theory Spec2Isabelle
  imports Complex_Main "HOL-Library.Sublist"
begin

section \<open>JavaScript values and thrown values\<close>

text \<open>
  The key file is parsed by \<^verbatim>\<open>JSON.parse\<close> into an untyped value, and the credential
  record that \<^verbatim>\<open>src/auth/client.ts\<close> builds from it holds whatever the document held.
  A value is therefore a JSON value or \<^verbatim>\<open>undefined\<close> (the result of reading a property
  that is not there). A number is read as a real: the code only ever tests it for
  being zero. An object is an association list read with \<open>map_of\<close>.
\<close>

datatype jsval =
    JUndefined
  | JNull
  | JBool bool
  | JNum real
  | JStr string
  | JArr "jsval list"
  | JObj "(string \<times> jsval) list"

text \<open>What \<^verbatim>\<open>if (v)\<close>, \<^verbatim>\<open>!v\<close>, \<^verbatim>\<open>a && b\<close> and \<^verbatim>\<open>a || b\<close> test.\<close>

fun truthy :: "jsval \<Rightarrow> bool" where
  "truthy JUndefined = False"
| "truthy JNull = False"
| "truthy (JBool b) = b"
| "truthy (JNum x) = (x \<noteq> 0)"
| "truthy (JStr s) = (s \<noteq> [])"
| "truthy (JArr xs) = True"
| "truthy (JObj kvs) = True"

text \<open>
  The property read \<^verbatim>\<open>v.k\<close> on a value that is neither \<^verbatim>\<open>null\<close> nor
  \<^verbatim>\<open>undefined\<close>, for the four names the code reads (\<^verbatim>\<open>installed\<close>,
  \<^verbatim>\<open>client_id\<close>, \<^verbatim>\<open>client_secret\<close>, \<^verbatim>\<open>redirect_uris\<close>): none of them is a
  property of a string, a number, a boolean or an array, so only an object can hold one.
\<close>

fun getProp :: "jsval \<Rightarrow> string \<Rightarrow> jsval" where
  "getProp (JObj kvs) k = (case map_of kvs k of None \<Rightarrow> JUndefined | Some v \<Rightarrow> v)"
| "getProp v k = JUndefined"

text \<open>
  A thrown value. Each \<^verbatim>\<open>catch\<close> of the file puts the caught value into a template
  literal, \<^verbatim>\<open>${error instanceof Error ? error.message : error}\<close>, so a thrown value is
  told apart by what that interpolation does with it:
  \<^item> an instance of \<^verbatim>\<open>Error\<close>, with the constructor that made it and the string its
    message gives;
  \<^item> any other value that converts to a string, kept as that string;
  \<^item> a value for which the interpolation itself throws: a \<^verbatim>\<open>Symbol\<close> or an object
    without a string conversion (the conversion throws a \<^verbatim>\<open>TypeError\<close>), or a value
    whose \<^verbatim>\<open>message\<close> or \<^verbatim>\<open>toString\<close> throws; it is kept with what the conversion
    throws.
\<close>

datatype thrown =
    Error string
  | TypeError string
  | SyntaxError string
  | NonError string
  | Unconvertible thrown

text \<open>
  \<^verbatim>\<open>${error instanceof Error ? error.message : error}\<close>: the string, or what the
  conversion throws.
\<close>

fun errorText :: "thrown \<Rightarrow> thrown + string" where
  "errorText (Error m) = Inr m"
| "errorText (TypeError m) = Inr m"
| "errorText (SyntaxError m) = Inr m"
| "errorText (NonError s) = Inr s"
| "errorText (Unconvertible x) = Inl x"

text \<open>
  \<^verbatim>\<open>throw new Error(`pre${error instanceof Error ? error.message : error}`)\<close>, the
  statement of every \<^verbatim>\<open>catch\<close> block of the file: the argument is evaluated first, so
  when the interpolation throws, that is what leaves the block and no \<^verbatim>\<open>Error\<close> is
  built.
\<close>

definition throw_wrapped :: "string \<Rightarrow> thrown \<Rightarrow> thrown" where
  "throw_wrapped pre error =
     (case errorText error of Inl x \<Rightarrow> x | Inr m \<Rightarrow> Error (pre @ m))"

section \<open>The data model\<close>

text \<open>
  The pair that \<^verbatim>\<open>loadCredentials\<close> returns, and \<^verbatim>\<open>OAuthCredentials\<close>, which adds
  the redirect URIs. The fields are typed \<^verbatim>\<open>string\<close> and \<^verbatim>\<open>string[]\<close> in
  TypeScript, but nothing checks what a parsed document puts there.
\<close>

record MinimalCredential =
  client_id :: jsval
  client_secret :: jsval

record OAuthCredentials = MinimalCredential +
  redirect_uris :: jsval

text \<open>
  Modelled from the spec: the response type of the secrets-service SDK, which is not part
  of the repository. \<^verbatim>\<open>list(project, environment)\<close> returns an object whose optional
  \<^verbatim>\<open>secrets\<close> field maps a name to a secret carrying an optional \<^verbatim>\<open>computed\<close> string.
\<close>

record Secret =
  computed :: "string option"

record SecretsResponse =
  secrets :: "(string \<times> Secret) list option"

section \<open>The surroundings of a call\<close>

text \<open>
  Everything a call reads: the outcome of \<^verbatim>\<open>fs.readFile(getKeysFilePath(), "utf-8")\<close>,
  \<^verbatim>\<open>JSON.parse\<close> (a parameter: the parser is not modelled), \<^verbatim>\<open>process.env\<close>, and the
  secrets service (building the SDK object with the token and calling
  \<^verbatim>\<open>secrets.list\<close> with a project and a configuration, which throws or returns).
  Writing the notice to \<^verbatim>\<open>process.stderr\<close> is taken to succeed.
\<close>

record world =
  keysFile :: "thrown + string"
  JSON_parse :: "string \<Rightarrow> thrown + jsval"
  env :: "string \<rightharpoonup> string"
  secrets_list :: "string \<Rightarrow> string \<Rightarrow> string \<Rightarrow> thrown + SecretsResponse"

text \<open>What a call does besides returning or throwing, in order.\<close>

datatype event =
    ReadFile
  | SecretsList string string string
  | StderrWrite string

type_synonym 'a outcome = "event list \<times> (thrown + 'a)"

text \<open>\<^verbatim>\<open>process.env.NAME\<close>: the string, or \<^verbatim>\<open>undefined\<close> when the variable is not set.\<close>

definition process_env :: "world \<Rightarrow> string \<Rightarrow> jsval" where
  "process_env w k = (case env w k of None \<Rightarrow> JUndefined | Some s \<Rightarrow> JStr s)"

section \<open>loadCredentialsFromFile\<close>

definition invalid_format_message :: string where
  "invalid_format_message =
     ''Invalid credentials file format. Expected either \"installed\" object or direct client_id/client_secret fields.''"

definition default_redirect_uris :: jsval where
  "default_redirect_uris = JArr [JStr ''http://localhost:3000/oauth2callback'']"

text \<open>
  Lines 9 to 22, on the parsed document \<^verbatim>\<open>keys\<close>. Reading \<^verbatim>\<open>keys.installed\<close> throws a
  \<^verbatim>\<open>TypeError\<close> when the document is \<^verbatim>\<open>null\<close>; every other JSON value has
  properties. The destructuring on line 11 reads from a truthy value, so it cannot throw.
\<close>

definition loadCredentialsFromFile_keys :: "jsval \<Rightarrow> thrown + OAuthCredentials" where
  "loadCredentialsFromFile_keys keys =
     (case keys of
        JNull \<Rightarrow> Inl (TypeError ''Cannot read properties of null (reading 'installed')'')
      | JUndefined \<Rightarrow> Inl (TypeError ''Cannot read properties of undefined (reading 'installed')'')
      | _ \<Rightarrow>
        if truthy (getProp keys ''installed'') then
          Inr \<lparr> client_id = getProp (getProp keys ''installed'') ''client_id'',
                client_secret = getProp (getProp keys ''installed'') ''client_secret'',
                redirect_uris = getProp (getProp keys ''installed'') ''redirect_uris'' \<rparr>
        else if truthy (getProp keys ''client_id'') \<and> truthy (getProp keys ''client_secret'') then
          Inr \<lparr> client_id = getProp keys ''client_id'',
                client_secret = getProp keys ''client_secret'',
                redirect_uris =
                  (if truthy (getProp keys ''redirect_uris'') then getProp keys ''redirect_uris''
                   else default_redirect_uris) \<rparr>
        else Inl (Error invalid_format_message))"

text \<open>The whole function: read the file, parse it, classify the document.\<close>

definition loadCredentialsFromFile :: "world \<Rightarrow> OAuthCredentials outcome" where
  "loadCredentialsFromFile w =
     (case keysFile w of
        Inl e \<Rightarrow> ([ReadFile], Inl e)
      | Inr keysContent \<Rightarrow>
          (case JSON_parse w keysContent of
             Inl e \<Rightarrow> ([ReadFile], Inl e)
           | Inr keys \<Rightarrow> ([ReadFile], loadCredentialsFromFile_keys keys)))"

section \<open>loadCredentialsWithFallback, first revision (environment variables)\<close>

definition env_not_found_message :: string where
  "env_not_found_message =
     ''Doppler OAuth credentials not found. Please ensure GOOGLE_CLIENT_ID, GOOGLE_CLIENT_SECRET, and GOOGLE_REDIRECT_URI environment variables are set.''"

definition loadCredentialsWithFallback_env :: "world \<Rightarrow> OAuthCredentials outcome" where
  "loadCredentialsWithFallback_env w =
     (let clientId = process_env w ''GOOGLE_CLIENT_ID'';
          clientSecret = process_env w ''GOOGLE_CLIENT_SECRET'';
          redirectUri = process_env w ''GOOGLE_REDIRECT_URI''
      in if truthy clientId \<and> truthy clientSecret \<and> truthy redirectUri then
           ((if process_env w ''NODE_ENV'' \<noteq> JStr ''test''
             then [StderrWrite (''Loading OAuth credentials from Doppler environment variables'' @ [CHR 0x0A])]
             else []),
            Inr \<lparr> client_id = clientId, client_secret = clientSecret,
                  redirect_uris = JArr [redirectUri] \<rparr>)
         else ([], Inl (Error env_not_found_message)))"

section \<open>loadCredentialsWithFallback, second revision (secrets service)\<close>

definition sdk_not_found_message :: string where
  "sdk_not_found_message =
     ''Doppler OAuth credentials not found. Please ensure GOOGLE_CLIENT_ID, GOOGLE_CLIENT_SECRET, and GOOGLE_REDIRECT_URI are set in Doppler.''"

definition token_not_set_message :: string where
  "token_not_set_message = ''DOPPLER_TOKEN environment variable not set''"

definition failed_to_load_prefix :: string where
  "failed_to_load_prefix = ''Failed to load OAuth credentials from Doppler: ''"

text \<open>\<^verbatim>\<open>secrets.NAME?.computed\<close>\<close>

definition computedOf :: "(string \<times> Secret) list \<Rightarrow> string \<Rightarrow> jsval" where
  "computedOf ss k =
     (case map_of ss k of
        None \<Rightarrow> JUndefined
      | Some s \<Rightarrow> (case computed s of None \<Rightarrow> JUndefined | Some v \<Rightarrow> JStr v))"

text \<open>The body of the \<^verbatim>\<open>try\<close> block, lines 104 to 132.\<close>

definition loadCredentialsWithFallback_sdk_try :: "world \<Rightarrow> OAuthCredentials outcome" where
  "loadCredentialsWithFallback_sdk_try w =
     (case env w ''DOPPLER_TOKEN'' of
        None \<Rightarrow> ([], Inl (Error token_not_set_message))
      | Some dopplerToken \<Rightarrow>
          if \<not> truthy (JStr dopplerToken) then ([], Inl (Error token_not_set_message))
          else
            (case secrets_list w dopplerToken ''home_automation'' ''prd'' of
               Inl e \<Rightarrow> ([SecretsList dopplerToken ''home_automation'' ''prd''], Inl e)
             | Inr secretsResponse \<Rightarrow>
                 (let ss = (case secrets secretsResponse of None \<Rightarrow> [] | Some m \<Rightarrow> m);
                      clientId = computedOf ss ''GOOGLE_CLIENT_ID'';
                      clientSecret = computedOf ss ''GOOGLE_CLIENT_SECRET'';
                      redirectUri = computedOf ss ''GOOGLE_REDIRECT_URI''
                  in if \<not> truthy clientId \<or> \<not> truthy clientSecret \<or> \<not> truthy redirectUri then
                       ([SecretsList dopplerToken ''home_automation'' ''prd''],
                        Inl (Error sdk_not_found_message))
                     else
                       (SecretsList dopplerToken ''home_automation'' ''prd'' #
                          (if process_env w ''NODE_ENV'' \<noteq> JStr ''test''
                           then [StderrWrite (''Loading OAuth credentials from Doppler via SDK'' @ [CHR 0x0A])]
                           else []),
                        Inr \<lparr> client_id = clientId, client_secret = clientSecret,
                              redirect_uris = JArr [redirectUri] \<rparr>))))"

text \<open>
  The \<^verbatim>\<open>catch\<close> on lines 133 to 135 wraps whatever the block threw, when that can be
  put into the message.
\<close>

definition loadCredentialsWithFallback_sdk :: "world \<Rightarrow> OAuthCredentials outcome" where
  "loadCredentialsWithFallback_sdk w =
     (case loadCredentialsWithFallback_sdk_try w of
        (evs, Inl error) \<Rightarrow> (evs, Inl (throw_wrapped failed_to_load_prefix error))
      | (evs, Inr credentials) \<Rightarrow> (evs, Inr credentials))"

section \<open>loadCredentials\<close>

definition missing_message :: string where
  "missing_message = ''Client ID or Client Secret missing in credentials.''"

definition error_loading_prefix :: string where
  "error_loading_prefix = ''Error loading credentials: ''"

text \<open>
  The body of \<^verbatim>\<open>loadCredentials\<close> (the same text in both revisions), given what the
  awaited \<^verbatim>\<open>loadCredentialsWithFallback()\<close> did.
\<close>

definition loadCredentials_of :: "OAuthCredentials outcome \<Rightarrow> MinimalCredential outcome" where
  "loadCredentials_of r =
     (case r of (evs, res) \<Rightarrow>
        (evs,
         (case (case res of
                  Inl e \<Rightarrow> Inl e
                | Inr credentials \<Rightarrow>
                    if \<not> truthy (client_id credentials) \<or> \<not> truthy (client_secret credentials)
                    then Inl (Error missing_message)
                    else Inr \<lparr> client_id = client_id credentials,
                               client_secret = client_secret credentials \<rparr>) of
            Inl error \<Rightarrow> Inl (throw_wrapped error_loading_prefix error)
          | Inr m \<Rightarrow> Inr m)))"

definition loadCredentials_env :: "world \<Rightarrow> MinimalCredential outcome" where
  "loadCredentials_env w = loadCredentials_of (loadCredentialsWithFallback_env w)"

definition loadCredentials_sdk :: "world \<Rightarrow> MinimalCredential outcome" where
  "loadCredentials_sdk w = loadCredentials_of (loadCredentialsWithFallback_sdk w)"

section \<open>Concrete surroundings for the examples\<close>

text \<open>
  A world given by the outcome of reading the key file, the document its content parses
  to, the environment variables as a list, and what the secrets service does.
\<close>

definition example_world ::
  "thrown + string \<Rightarrow> jsval \<Rightarrow> (string \<times> string) list \<Rightarrow> thrown + SecretsResponse \<Rightarrow> world" where
  "example_world file keys vars svc =
     \<lparr> keysFile = file,
       JSON_parse = (\<lambda>s. if file = Inr s then Inr keys else Inl (SyntaxError ''Unexpected token'')),
       env = map_of vars,
       secrets_list = (\<lambda>token project config. svc) \<rparr>"

section \<open>Facts about the file reader\<close>

lemma names_both_shapes:
  "sublist ''\"installed\" object'' invalid_format_message"
  "sublist ''direct client_id/client_secret fields'' invalid_format_message"
  unfolding invalid_format_message_def by code_simp+

lemma loadCredentialsFromFile_parsed:
  assumes "keysFile w = Inr content" and "JSON_parse w content = Inr keys"
  shows "loadCredentialsFromFile w = ([ReadFile], loadCredentialsFromFile_keys keys)"
  using assms by (simp add: loadCredentialsFromFile_def)

lemma flat_shape_keys:
  assumes "\<not> truthy (getProp (JObj kvs) ''installed'')"
    and "truthy (getProp (JObj kvs) ''client_id'')" and "truthy (getProp (JObj kvs) ''client_secret'')"
  shows "loadCredentialsFromFile_keys (JObj kvs) =
           Inr \<lparr> client_id = getProp (JObj kvs) ''client_id'',
                 client_secret = getProp (JObj kvs) ''client_secret'',
                 redirect_uris =
                   (if truthy (getProp (JObj kvs) ''redirect_uris'') then getProp (JObj kvs) ''redirect_uris''
                    else default_redirect_uris) \<rparr>"
  using assms by (simp add: loadCredentialsFromFile_keys_def)

text \<open>
  Every document other than \<^verbatim>\<open>null\<close> that passes neither test of lines 9 and 13 gets
  the format error.
\<close>

lemma unrecognised_shape_keys:
  assumes "keys \<noteq> JNull" and "keys \<noteq> JUndefined"
    and "\<not> truthy (getProp keys ''installed'')"
    and "\<not> (truthy (getProp keys ''client_id'') \<and> truthy (getProp keys ''client_secret''))"
  shows "loadCredentialsFromFile_keys keys = Inl (Error invalid_format_message)"
  using assms by (cases keys) (auto simp add: loadCredentialsFromFile_keys_def)

section \<open>Facts about the first revision of the resolver\<close>

lemma truthy_process_env:
  "truthy (process_env w k) \<longleftrightarrow> (\<exists>s. env w k = Some s \<and> s \<noteq> [])"
  by (simp add: process_env_def split: option.split)

lemma env_success:
  assumes "env w ''GOOGLE_CLIENT_ID'' = Some i" and "i \<noteq> []"
    and "env w ''GOOGLE_CLIENT_SECRET'' = Some s" and "s \<noteq> []"
    and "env w ''GOOGLE_REDIRECT_URI'' = Some u" and "u \<noteq> []"
  shows "snd (loadCredentialsWithFallback_env w) =
           Inr \<lparr> client_id = JStr i, client_secret = JStr s, redirect_uris = JArr [JStr u] \<rparr>"
  using assms by (simp add: loadCredentialsWithFallback_env_def process_env_def)

lemma env_failure:
  assumes "\<not> (truthy (process_env w ''GOOGLE_CLIENT_ID'') \<and> truthy (process_env w ''GOOGLE_CLIENT_SECRET'')
              \<and> truthy (process_env w ''GOOGLE_REDIRECT_URI''))"
  shows "loadCredentialsWithFallback_env w = ([], Inl (Error env_not_found_message))"
  using assms by (auto simp add: loadCredentialsWithFallback_env_def Let_def)

lemma env_cases:
  obtains (ok) i s u where "env w ''GOOGLE_CLIENT_ID'' = Some i" "i \<noteq> []"
      "env w ''GOOGLE_CLIENT_SECRET'' = Some s" "s \<noteq> []"
      "env w ''GOOGLE_REDIRECT_URI'' = Some u" "u \<noteq> []"
      "snd (loadCredentialsWithFallback_env w) =
         Inr \<lparr> client_id = JStr i, client_secret = JStr s, redirect_uris = JArr [JStr u] \<rparr>"
  | (fail) "\<not> (\<exists>i s u. env w ''GOOGLE_CLIENT_ID'' = Some i \<and> i \<noteq> []
        \<and> env w ''GOOGLE_CLIENT_SECRET'' = Some s \<and> s \<noteq> []
        \<and> env w ''GOOGLE_REDIRECT_URI'' = Some u \<and> u \<noteq> [])"
      "loadCredentialsWithFallback_env w = ([], Inl (Error env_not_found_message))"
proof (cases "truthy (process_env w ''GOOGLE_CLIENT_ID'') \<and> truthy (process_env w ''GOOGLE_CLIENT_SECRET'')
              \<and> truthy (process_env w ''GOOGLE_REDIRECT_URI'')")
  case True
  then obtain i s u where h: "env w ''GOOGLE_CLIENT_ID'' = Some i" "i \<noteq> []"
      "env w ''GOOGLE_CLIENT_SECRET'' = Some s" "s \<noteq> []"
      "env w ''GOOGLE_REDIRECT_URI'' = Some u" "u \<noteq> []"
    unfolding truthy_process_env by blast
  from ok [OF h env_success [OF h]] show ?thesis .
next
  case False
  then have "\<not> (\<exists>i s u. env w ''GOOGLE_CLIENT_ID'' = Some i \<and> i \<noteq> []
        \<and> env w ''GOOGLE_CLIENT_SECRET'' = Some s \<and> s \<noteq> []
        \<and> env w ''GOOGLE_REDIRECT_URI'' = Some u \<and> u \<noteq> [])"
    unfolding truthy_process_env by blast
  from fail [OF this env_failure [OF False]] show ?thesis .
qed

lemma names_all_variables:
  "sublist ''GOOGLE_CLIENT_ID'' env_not_found_message"
  "sublist ''GOOGLE_CLIENT_SECRET'' env_not_found_message"
  "sublist ''GOOGLE_REDIRECT_URI'' env_not_found_message"
  unfolding env_not_found_message_def by code_simp+

lemma env_events:
  "fst (loadCredentialsWithFallback_env w) = [] \<or>
   (\<exists>m. fst (loadCredentialsWithFallback_env w) = [StderrWrite m])"
  by (simp add: loadCredentialsWithFallback_env_def Let_def)

lemma env_only:
  "env w' = env w \<Longrightarrow> loadCredentialsWithFallback_env w' = loadCredentialsWithFallback_env w"
  by (simp add: loadCredentialsWithFallback_env_def process_env_def)

section \<open>Facts about the second revision of the resolver\<close>

lemma throw_wrapped_simps:
  "throw_wrapped p (Error m) = Error (p @ m)"
  "throw_wrapped p (TypeError m) = Error (p @ m)"
  "throw_wrapped p (SyntaxError m) = Error (p @ m)"
  "throw_wrapped p (NonError m) = Error (p @ m)"
  "throw_wrapped p (Unconvertible x) = x"
  by (simp_all add: throw_wrapped_def)

lemma sdk_no_token:
  assumes "env w ''DOPPLER_TOKEN'' = None \<or> env w ''DOPPLER_TOKEN'' = Some []"
  shows "loadCredentialsWithFallback_sdk w =
           ([], Inl (Error (failed_to_load_prefix @ token_not_set_message)))"
  using assms
  by (auto simp add: loadCredentialsWithFallback_sdk_def loadCredentialsWithFallback_sdk_try_def
      throw_wrapped_simps)

lemma sdk_throws:
  assumes "env w ''DOPPLER_TOKEN'' = Some t" and "t \<noteq> []"
    and "secrets_list w t ''home_automation'' ''prd'' = Inl x"
  shows "loadCredentialsWithFallback_sdk w =
           ([SecretsList t ''home_automation'' ''prd''],
            Inl (throw_wrapped failed_to_load_prefix x))"
  using assms
  by (simp add: loadCredentialsWithFallback_sdk_def loadCredentialsWithFallback_sdk_try_def)

lemma sdk_throws_text:
  assumes "env w ''DOPPLER_TOKEN'' = Some t" and "t \<noteq> []"
    and "secrets_list w t ''home_automation'' ''prd'' = Inl x"
    and "x = Error m \<or> x = TypeError m \<or> x = SyntaxError m \<or> x = NonError m"
  shows "loadCredentialsWithFallback_sdk w =
           ([SecretsList t ''home_automation'' ''prd''],
            Inl (Error (failed_to_load_prefix @ m)))"
  using sdk_throws [OF assms(1-3)] assms(4) by (auto simp add: throw_wrapped_simps)

lemma truthy_computedOf:
  "truthy (computedOf ss k) \<longleftrightarrow> (\<exists>s v. map_of ss k = Some s \<and> computed s = Some v \<and> v \<noteq> [])"
  by (simp add: computedOf_def split: option.split)

lemma sdk_returns:
  assumes "env w ''DOPPLER_TOKEN'' = Some t" and "t \<noteq> []"
    and "secrets_list w t ''home_automation'' ''prd'' = Inr r"
  shows "snd (loadCredentialsWithFallback_sdk w) =
           (let ss = (case secrets r of None \<Rightarrow> [] | Some m \<Rightarrow> m)
            in if truthy (computedOf ss ''GOOGLE_CLIENT_ID'')
                  \<and> truthy (computedOf ss ''GOOGLE_CLIENT_SECRET'')
                  \<and> truthy (computedOf ss ''GOOGLE_REDIRECT_URI'')
               then Inr \<lparr> client_id = computedOf ss ''GOOGLE_CLIENT_ID'',
                           client_secret = computedOf ss ''GOOGLE_CLIENT_SECRET'',
                           redirect_uris = JArr [computedOf ss ''GOOGLE_REDIRECT_URI''] \<rparr>
               else Inl (Error (failed_to_load_prefix @ sdk_not_found_message)))"
  using assms
  by (simp add: loadCredentialsWithFallback_sdk_def loadCredentialsWithFallback_sdk_try_def Let_def
      throw_wrapped_simps)

lemma sdk_failure_shape:
  assumes "snd (loadCredentialsWithFallback_sdk w) = Inl e"
  shows "e = Error (failed_to_load_prefix @ token_not_set_message)
         \<or> e = Error (failed_to_load_prefix @ sdk_not_found_message)
         \<or> (\<exists>t x. env w ''DOPPLER_TOKEN'' = Some t \<and> t \<noteq> []
               \<and> secrets_list w t ''home_automation'' ''prd'' = Inl x
               \<and> e = throw_wrapped failed_to_load_prefix x)"
proof (cases "env w ''DOPPLER_TOKEN'' = None \<or> env w ''DOPPLER_TOKEN'' = Some []")
  case True
  from sdk_no_token [OF this] assms show ?thesis by simp
next
  case False
  then obtain t where t: "env w ''DOPPLER_TOKEN'' = Some t" "t \<noteq> []" by auto
  show ?thesis
  proof (cases "secrets_list w t ''home_automation'' ''prd''")
    case (Inl x)
    from sdk_throws [OF t this] assms t Inl show ?thesis by auto
  next
    case (Inr r)
    from sdk_returns [OF t this] assms show ?thesis
      by (auto simp add: Let_def throw_wrapped_simps split: if_splits)
  qed
qed

lemma sdk_not_found:
  assumes "env w ''DOPPLER_TOKEN'' = Some t" and "t \<noteq> []"
    and "secrets_list w t ''home_automation'' ''prd'' = Inr r"
    and "\<not> (\<exists>ss a b d i s u. secrets r = Some ss
          \<and> map_of ss ''GOOGLE_CLIENT_ID'' = Some a \<and> computed a = Some i \<and> i \<noteq> []
          \<and> map_of ss ''GOOGLE_CLIENT_SECRET'' = Some b \<and> computed b = Some s \<and> s \<noteq> []
          \<and> map_of ss ''GOOGLE_REDIRECT_URI'' = Some d \<and> computed d = Some u \<and> u \<noteq> [])"
  shows "loadCredentialsWithFallback_sdk w =
           ([SecretsList t ''home_automation'' ''prd''],
            Inl (Error (failed_to_load_prefix @ sdk_not_found_message)))"
proof -
  define ss where "ss = (case secrets r of None \<Rightarrow> [] | Some m \<Rightarrow> m)"
  have "\<not> (truthy (computedOf ss ''GOOGLE_CLIENT_ID'') \<and> truthy (computedOf ss ''GOOGLE_CLIENT_SECRET'')
            \<and> truthy (computedOf ss ''GOOGLE_REDIRECT_URI''))"
  proof
    assume "truthy (computedOf ss ''GOOGLE_CLIENT_ID'') \<and> truthy (computedOf ss ''GOOGLE_CLIENT_SECRET'')
            \<and> truthy (computedOf ss ''GOOGLE_REDIRECT_URI'')"
    then obtain a b d i s u where h: "map_of ss ''GOOGLE_CLIENT_ID'' = Some a" "computed a = Some i" "i \<noteq> []"
        "map_of ss ''GOOGLE_CLIENT_SECRET'' = Some b" "computed b = Some s" "s \<noteq> []"
        "map_of ss ''GOOGLE_REDIRECT_URI'' = Some d" "computed d = Some u" "u \<noteq> []"
      unfolding truthy_computedOf by blast
    then have "secrets r = Some ss" by (cases "secrets r") (simp_all add: ss_def)
    with h assms(4) show False by blast
  qed
  with assms(1-3) show ?thesis
    by (auto simp add: loadCredentialsWithFallback_sdk_def loadCredentialsWithFallback_sdk_try_def
        Let_def ss_def throw_wrapped_simps)
qed

lemma sdk_success_shape:
  assumes "snd (loadCredentialsWithFallback_sdk w) = Inr c"
  shows "\<exists>i s u. i \<noteq> [] \<and> s \<noteq> [] \<and> u \<noteq> [] \<and>
           c = \<lparr> client_id = JStr i, client_secret = JStr s, redirect_uris = JArr [JStr u] \<rparr>"
proof (cases "env w ''DOPPLER_TOKEN'' = None \<or> env w ''DOPPLER_TOKEN'' = Some []")
  case True
  from sdk_no_token [OF this] assms show ?thesis by simp
next
  case False
  then obtain t where t: "env w ''DOPPLER_TOKEN'' = Some t" "t \<noteq> []" by auto
  show ?thesis
  proof (cases "secrets_list w t ''home_automation'' ''prd''")
    case (Inl x)
    from sdk_throws [OF t this] assms show ?thesis by simp
  next
    case (Inr r)
    define ss where "ss = (case secrets r of None \<Rightarrow> [] | Some m \<Rightarrow> m)"
    from sdk_returns [OF t Inr] assms
    have ok: "truthy (computedOf ss ''GOOGLE_CLIENT_ID'')" "truthy (computedOf ss ''GOOGLE_CLIENT_SECRET'')"
        "truthy (computedOf ss ''GOOGLE_REDIRECT_URI'')"
      and c: "c = \<lparr> client_id = computedOf ss ''GOOGLE_CLIENT_ID'',
                     client_secret = computedOf ss ''GOOGLE_CLIENT_SECRET'',
                     redirect_uris = JArr [computedOf ss ''GOOGLE_REDIRECT_URI''] \<rparr>"
      by (auto simp add: Let_def ss_def split: if_splits)
    from ok obtain i s u where "computedOf ss ''GOOGLE_CLIENT_ID'' = JStr i" "i \<noteq> []"
        "computedOf ss ''GOOGLE_CLIENT_SECRET'' = JStr s" "s \<noteq> []"
        "computedOf ss ''GOOGLE_REDIRECT_URI'' = JStr u" "u \<noteq> []"
      by (auto simp add: computedOf_def split: option.splits)
    with c show ?thesis by auto
  qed
qed

lemma sdk_events:
  "fst (loadCredentialsWithFallback_sdk w) = [] \<or>
   (\<exists>t. env w ''DOPPLER_TOKEN'' = Some t \<and> t \<noteq> [] \<and>
        (fst (loadCredentialsWithFallback_sdk w) = [SecretsList t ''home_automation'' ''prd''] \<or>
         (\<exists>m. fst (loadCredentialsWithFallback_sdk w) =
                 [SecretsList t ''home_automation'' ''prd'', StderrWrite m])))"
  by (auto simp add: loadCredentialsWithFallback_sdk_def loadCredentialsWithFallback_sdk_try_def Let_def
      split: option.split sum.split)

lemma sdk_only:
  assumes "env w' ''DOPPLER_TOKEN'' = env w ''DOPPLER_TOKEN''" and "env w' ''NODE_ENV'' = env w ''NODE_ENV''"
    and "secrets_list w' = secrets_list w"
  shows "loadCredentialsWithFallback_sdk w' = loadCredentialsWithFallback_sdk w"
  using assms
  by (simp add: loadCredentialsWithFallback_sdk_def loadCredentialsWithFallback_sdk_try_def process_env_def
      cong: option.case_cong if_cong)

lemma wrapped_differs:
  "x = Error m \<or> x = TypeError m \<or> x = SyntaxError m \<or> x = NonError m \<Longrightarrow>
   Error (failed_to_load_prefix @ m) \<noteq> x"
  by (auto simp add: failed_to_load_prefix_def)

section \<open>Facts about loadCredentials\<close>

lemma names_both_fields:
  "sublist ''Client ID'' missing_message" "sublist ''Client Secret'' missing_message"
  unfolding missing_message_def by code_simp+

text \<open>
  What the body of \<^verbatim>\<open>loadCredentials\<close> would do with a record that lacks a field: one
  fixed message, whichever field it is.
\<close>

lemma loadCredentials_of_incomplete:
  assumes "\<not> truthy (client_id c) \<or> \<not> truthy (client_secret c)"
  shows "loadCredentials_of (evs, Inr c) = (evs, Inl (Error (error_loading_prefix @ missing_message)))"
  using assms by (auto simp add: loadCredentials_of_def throw_wrapped_simps)

text \<open>
  \<^verbatim>\<open>loadCredentials\<close> takes no argument: the record it checks on line 66 (line 159 in
  the second revision) is the one \<^verbatim>\<open>loadCredentialsWithFallback\<close> returned, and both
  revisions return a record only after testing that \<^verbatim>\<open>client_id\<close> and
  \<^verbatim>\<open>client_secret\<close> are truthy (lines 31 and 120). So the condition of the check is
  never true.
\<close>

lemma resolved_fields_truthy:
  assumes "snd (loadCredentialsWithFallback_env w) = Inr c \<or> snd (loadCredentialsWithFallback_sdk w) = Inr c"
  shows "truthy (client_id c) \<and> truthy (client_secret c)"
  using assms
proof
  assume "snd (loadCredentialsWithFallback_env w) = Inr c"
  then show ?thesis by (cases w rule: env_cases) auto
next
  assume "snd (loadCredentialsWithFallback_sdk w) = Inr c"
  from sdk_success_shape [OF this] show ?thesis by auto
qed

lemma loadCredentials_env_never_incomplete:
  "snd (loadCredentials_env w) \<noteq> Inl (Error (error_loading_prefix @ missing_message))"
proof (cases w rule: env_cases)
  case (ok i s u)
  then show ?thesis
    by (cases "loadCredentialsWithFallback_env w") (simp add: loadCredentials_env_def loadCredentials_of_def)
next
  case fail
  then show ?thesis
    by (simp add: loadCredentials_env_def loadCredentials_of_def error_loading_prefix_def
        missing_message_def env_not_found_message_def throw_wrapped_simps)
qed

section \<open>The resolver\<close>

text \<open>
  C1 as the specification states it: the resolver tries the key file, the environment and
  the secrets service in a fixed order and returns the record of the first that
  succeeds. Here the key file holds a well-formed \<^verbatim>\<open>installed\<close> document, so the file
  reader succeeds, while no environment variable is set; yet both revisions of
  \<^verbatim>\<open>loadCredentialsWithFallback\<close> fail, without having read the file.
\<close>

theorem fallback_chain_counterexample:
  "loadCredentialsFromFile
     (example_world
        (Inr ''{\"installed\":{\"client_id\":\"id1\",\"client_secret\":\"secret1\",\"redirect_uris\":[\"http://x/cb\"]}}'')
        (JObj [(''installed'', JObj [(''client_id'', JStr ''id1''), (''client_secret'', JStr ''secret1''),
                                      (''redirect_uris'', JArr [JStr ''http://x/cb''])])])
        [] (Inl (Error ''fetch failed'')))
     = ([ReadFile], Inr \<lparr> client_id = JStr ''id1'', client_secret = JStr ''secret1'',
                           redirect_uris = JArr [JStr ''http://x/cb''] \<rparr>)
   \<and> loadCredentialsWithFallback_env
     (example_world
        (Inr ''{\"installed\":{\"client_id\":\"id1\",\"client_secret\":\"secret1\",\"redirect_uris\":[\"http://x/cb\"]}}'')
        (JObj [(''installed'', JObj [(''client_id'', JStr ''id1''), (''client_secret'', JStr ''secret1''),
                                      (''redirect_uris'', JArr [JStr ''http://x/cb''])])])
        [] (Inl (Error ''fetch failed'')))
     = ([], Inl (Error env_not_found_message))
   \<and> loadCredentialsWithFallback_sdk
     (example_world
        (Inr ''{\"installed\":{\"client_id\":\"id1\",\"client_secret\":\"secret1\",\"redirect_uris\":[\"http://x/cb\"]}}'')
        (JObj [(''installed'', JObj [(''client_id'', JStr ''id1''), (''client_secret'', JStr ''secret1''),
                                      (''redirect_uris'', JArr [JStr ''http://x/cb''])])])
        [] (Inl (Error ''fetch failed'')))
     = ([], Inl (Error (failed_to_load_prefix @ token_not_set_message)))"
  by (simp add: example_world_def loadCredentialsFromFile_def loadCredentialsFromFile_keys_def
      loadCredentialsWithFallback_env_def process_env_def throw_wrapped_simps
      loadCredentialsWithFallback_sdk_def loadCredentialsWithFallback_sdk_try_def)

text \<open>
  C1 as amended: each revision of the resolver attempts one source only, the environment
  variables in the first revision and the secrets service in the second, and returns
  that source's record when it succeeds. The outcome of the first revision is fixed by the
  environment alone, that of the second by \<^verbatim>\<open>DOPPLER_TOKEN\<close>, \<^verbatim>\<open>NODE_ENV\<close> and the
  service alone; neither reads the key file, and the first never calls the service.
\<close>

theorem single_source_resolver:
  "(\<forall>w'. env w' = env w \<longrightarrow> loadCredentialsWithFallback_env w' = loadCredentialsWithFallback_env w)
   \<and> (\<forall>w'. env w' ''DOPPLER_TOKEN'' = env w ''DOPPLER_TOKEN'' \<and> env w' ''NODE_ENV'' = env w ''NODE_ENV''
            \<and> secrets_list w' = secrets_list w \<longrightarrow>
          loadCredentialsWithFallback_sdk w' = loadCredentialsWithFallback_sdk w)
   \<and> ReadFile \<notin> set (fst (loadCredentialsWithFallback_env w))
   \<and> (\<forall>t p c. SecretsList t p c \<notin> set (fst (loadCredentialsWithFallback_env w)))
   \<and> ReadFile \<notin> set (fst (loadCredentialsWithFallback_sdk w))
   \<and> (\<forall>i s u. env w ''GOOGLE_CLIENT_ID'' = Some i \<and> i \<noteq> []
          \<and> env w ''GOOGLE_CLIENT_SECRET'' = Some s \<and> s \<noteq> []
          \<and> env w ''GOOGLE_REDIRECT_URI'' = Some u \<and> u \<noteq> [] \<longrightarrow>
        snd (loadCredentialsWithFallback_env w) =
          Inr \<lparr> client_id = JStr i, client_secret = JStr s, redirect_uris = JArr [JStr u] \<rparr>)
   \<and> (\<forall>t r ss a b d i s u. env w ''DOPPLER_TOKEN'' = Some t \<and> t \<noteq> []
          \<and> secrets_list w t ''home_automation'' ''prd'' = Inr r \<and> secrets r = Some ss
          \<and> map_of ss ''GOOGLE_CLIENT_ID'' = Some a \<and> computed a = Some i \<and> i \<noteq> []
          \<and> map_of ss ''GOOGLE_CLIENT_SECRET'' = Some b \<and> computed b = Some s \<and> s \<noteq> []
          \<and> map_of ss ''GOOGLE_REDIRECT_URI'' = Some d \<and> computed d = Some u \<and> u \<noteq> [] \<longrightarrow>
        snd (loadCredentialsWithFallback_sdk w) =
          Inr \<lparr> client_id = JStr i, client_secret = JStr s, redirect_uris = JArr [JStr u] \<rparr>)"
proof (intro conjI allI impI)
  show "loadCredentialsWithFallback_env w' = loadCredentialsWithFallback_env w" if "env w' = env w" for w'
    using that by (rule env_only)
  show "loadCredentialsWithFallback_sdk w' = loadCredentialsWithFallback_sdk w"
    if "env w' ''DOPPLER_TOKEN'' = env w ''DOPPLER_TOKEN'' \<and> env w' ''NODE_ENV'' = env w ''NODE_ENV''
            \<and> secrets_list w' = secrets_list w" for w'
    using that by (intro sdk_only) simp_all
  show "snd (loadCredentialsWithFallback_env w) =
          Inr \<lparr> client_id = JStr i, client_secret = JStr s, redirect_uris = JArr [JStr u] \<rparr>"
    if "env w ''GOOGLE_CLIENT_ID'' = Some i \<and> i \<noteq> []
          \<and> env w ''GOOGLE_CLIENT_SECRET'' = Some s \<and> s \<noteq> []
          \<and> env w ''GOOGLE_REDIRECT_URI'' = Some u \<and> u \<noteq> []" for i s u
    using that by (intro env_success) simp_all
  show "ReadFile \<notin> set (fst (loadCredentialsWithFallback_env w))"
    using env_events [of w] by auto
  show "SecretsList t p c \<notin> set (fst (loadCredentialsWithFallback_env w))" for t p c
    using env_events [of w] by auto
  show "ReadFile \<notin> set (fst (loadCredentialsWithFallback_sdk w))"
    using sdk_events [of w] by auto
next
  fix t r ss a b d i s u
  assume h: "env w ''DOPPLER_TOKEN'' = Some t \<and> t \<noteq> []
          \<and> secrets_list w t ''home_automation'' ''prd'' = Inr r \<and> secrets r = Some ss
          \<and> map_of ss ''GOOGLE_CLIENT_ID'' = Some a \<and> computed a = Some i \<and> i \<noteq> []
          \<and> map_of ss ''GOOGLE_CLIENT_SECRET'' = Some b \<and> computed b = Some s \<and> s \<noteq> []
          \<and> map_of ss ''GOOGLE_REDIRECT_URI'' = Some d \<and> computed d = Some u \<and> u \<noteq> []"
  then have "env w ''DOPPLER_TOKEN'' = Some t" "t \<noteq> []"
    "secrets_list w t ''home_automation'' ''prd'' = Inr r" by simp_all
  from sdk_returns [OF this] h
  show "snd (loadCredentialsWithFallback_sdk w) =
          Inr \<lparr> client_id = JStr i, client_secret = JStr s, redirect_uris = JArr [JStr u] \<rparr>"
    by (simp add: computedOf_def)
qed

text \<open>
  The amended C1 at work: with the three variables set and the key file missing, the first
  revision returns the record made of them; with a token and a service that returns the
  three secrets, the second revision returns the record made of those.
\<close>

theorem single_source_resolver_witness:
  "snd (loadCredentialsWithFallback_env
          (example_world (Inl (Error ''ENOENT: no such file or directory'')) JNull
             [(''GOOGLE_CLIENT_ID'', ''id1''), (''GOOGLE_CLIENT_SECRET'', ''secret1''),
              (''GOOGLE_REDIRECT_URI'', ''http://x/cb'')]
             (Inl (Error ''fetch failed''))))
     = Inr \<lparr> client_id = JStr ''id1'', client_secret = JStr ''secret1'',
             redirect_uris = JArr [JStr ''http://x/cb''] \<rparr>
   \<and> snd (loadCredentialsWithFallback_sdk
          (example_world (Inl (Error ''ENOENT: no such file or directory'')) JNull
             [(''DOPPLER_TOKEN'', ''dp.st.token'')]
             (Inr \<lparr> secrets = Some [(''GOOGLE_CLIENT_ID'', \<lparr> computed = Some ''id2'' \<rparr>),
                                     (''GOOGLE_CLIENT_SECRET'', \<lparr> computed = Some ''secret2'' \<rparr>),
                                     (''GOOGLE_REDIRECT_URI'', \<lparr> computed = Some ''http://y/cb'' \<rparr>)] \<rparr>)))
     = Inr \<lparr> client_id = JStr ''id2'', client_secret = JStr ''secret2'',
             redirect_uris = JArr [JStr ''http://y/cb''] \<rparr>"
proof -
  let ?w1 = "example_world (Inl (Error ''ENOENT: no such file or directory'')) JNull
             [(''GOOGLE_CLIENT_ID'', ''id1''), (''GOOGLE_CLIENT_SECRET'', ''secret1''),
              (''GOOGLE_REDIRECT_URI'', ''http://x/cb'')]
             (Inl (Error ''fetch failed''))"
  let ?ss = "[(''GOOGLE_CLIENT_ID'', \<lparr> computed = Some ''id2'' \<rparr>),
              (''GOOGLE_CLIENT_SECRET'', \<lparr> computed = Some ''secret2'' \<rparr>),
              (''GOOGLE_REDIRECT_URI'', \<lparr> computed = Some ''http://y/cb'' \<rparr>)]"
  let ?w2 = "example_world (Inl (Error ''ENOENT: no such file or directory'')) JNull
             [(''DOPPLER_TOKEN'', ''dp.st.token'')] (Inr \<lparr> secrets = Some ?ss \<rparr>)"
  have "env ?w1 ''GOOGLE_CLIENT_ID'' = Some ''id1'' \<and> ''id1'' \<noteq> []
          \<and> env ?w1 ''GOOGLE_CLIENT_SECRET'' = Some ''secret1'' \<and> ''secret1'' \<noteq> []
          \<and> env ?w1 ''GOOGLE_REDIRECT_URI'' = Some ''http://x/cb'' \<and> ''http://x/cb'' \<noteq> []"
    by (simp add: example_world_def)
  with single_source_resolver [of ?w1]
  have one: "snd (loadCredentialsWithFallback_env ?w1)
     = Inr \<lparr> client_id = JStr ''id1'', client_secret = JStr ''secret1'',
             redirect_uris = JArr [JStr ''http://x/cb''] \<rparr>"
    by blast
  have "env ?w2 ''DOPPLER_TOKEN'' = Some ''dp.st.token'' \<and> ''dp.st.token'' \<noteq> []
          \<and> secrets_list ?w2 ''dp.st.token'' ''home_automation'' ''prd'' = Inr \<lparr> secrets = Some ?ss \<rparr>
          \<and> secrets \<lparr> secrets = Some ?ss \<rparr> = Some ?ss
          \<and> map_of ?ss ''GOOGLE_CLIENT_ID'' = Some \<lparr> computed = Some ''id2'' \<rparr>
          \<and> computed \<lparr> computed = Some ''id2'' \<rparr> = Some ''id2'' \<and> ''id2'' \<noteq> []
          \<and> map_of ?ss ''GOOGLE_CLIENT_SECRET'' = Some \<lparr> computed = Some ''secret2'' \<rparr>
          \<and> computed \<lparr> computed = Some ''secret2'' \<rparr> = Some ''secret2'' \<and> ''secret2'' \<noteq> []
          \<and> map_of ?ss ''GOOGLE_REDIRECT_URI'' = Some \<lparr> computed = Some ''http://y/cb'' \<rparr>
          \<and> computed \<lparr> computed = Some ''http://y/cb'' \<rparr> = Some ''http://y/cb'' \<and> ''http://y/cb'' \<noteq> []"
    by (simp add: example_world_def)
  with single_source_resolver [of ?w2]
  have two: "snd (loadCredentialsWithFallback_sdk ?w2)
     = Inr \<lparr> client_id = JStr ''id2'', client_secret = JStr ''secret2'',
             redirect_uris = JArr [JStr ''http://y/cb''] \<rparr>"
    by blast
  from one two show ?thesis by (rule conjI)
qed

text \<open>
  C2 as the specification states it: when every source fails, the failure message holds
  the reason of each. Here the key file is missing, no credential variable is set and the
  service call throws. The message of the first revision holds neither the file reader's
  reason nor the service's; the message of the second holds neither the file reader's
  reason nor the text about the environment variables.
\<close>

theorem aggregated_reasons_counterexample:
  "loadCredentialsFromFile
     (example_world (Inl (Error ''ENOENT: no such file or directory'')) JNull
        [(''DOPPLER_TOKEN'', ''dp.st.token'')] (Inl (Error ''fetch failed'')))
     = ([ReadFile], Inl (Error ''ENOENT: no such file or directory''))
   \<and> loadCredentialsWithFallback_env
     (example_world (Inl (Error ''ENOENT: no such file or directory'')) JNull
        [(''DOPPLER_TOKEN'', ''dp.st.token'')] (Inl (Error ''fetch failed'')))
     = ([], Inl (Error env_not_found_message))
   \<and> \<not> sublist ''ENOENT: no such file or directory'' env_not_found_message
   \<and> \<not> sublist ''fetch failed'' env_not_found_message
   \<and> loadCredentialsWithFallback_sdk
     (example_world (Inl (Error ''ENOENT: no such file or directory'')) JNull
        [(''DOPPLER_TOKEN'', ''dp.st.token'')] (Inl (Error ''fetch failed'')))
     = ([SecretsList ''dp.st.token'' ''home_automation'' ''prd''],
        Inl (Error ''Failed to load OAuth credentials from Doppler: fetch failed''))
   \<and> \<not> sublist ''ENOENT: no such file or directory''
          ''Failed to load OAuth credentials from Doppler: fetch failed''
   \<and> \<not> sublist ''environment variables'' ''Failed to load OAuth credentials from Doppler: fetch failed''"
proof (intro conjI)
  show "\<not> sublist ''ENOENT: no such file or directory'' env_not_found_message"
    unfolding env_not_found_message_def by code_simp
  show "\<not> sublist ''fetch failed'' env_not_found_message"
    unfolding env_not_found_message_def by code_simp
  show "\<not> sublist ''ENOENT: no such file or directory''
          ''Failed to load OAuth credentials from Doppler: fetch failed''"
    by code_simp
  show "\<not> sublist ''environment variables'' ''Failed to load OAuth credentials from Doppler: fetch failed''"
    by code_simp
qed (simp_all add: example_world_def loadCredentialsFromFile_def
      loadCredentialsWithFallback_env_def process_env_def failed_to_load_prefix_def throw_wrapped_simps
      loadCredentialsWithFallback_sdk_def loadCredentialsWithFallback_sdk_try_def)

text \<open>
  C2 as amended: when its one source fails, the resolver throws an \<^verbatim>\<open>Error\<close> that
  carries the reason of that source only, and each reason goes with its cause. First
  revision: when the three variables are not all set and non-empty, the fixed message
  naming them. Second revision: when \<^verbatim>\<open>DOPPLER_TOKEN\<close> is unset or empty, the prefix
  \<^verbatim>\<open>Failed to load OAuth credentials from Doppler: \<close> followed by the token message;
  when the service call throws an \<^verbatim>\<open>Error\<close> with message \<open>m\<close>, or a value whose string
  conversion is \<open>m\<close>, the prefix followed by \<open>m\<close>; when the call returns and the three
  secrets are not all there with a non-empty \<^verbatim>\<open>computed\<close>, the prefix followed by the
  message about the secrets. (What happens to a thrown value that has no string
  conversion is not part of this statement.)
\<close>

theorem single_reason_failure:
  "(\<not> (\<exists>i s u. env w ''GOOGLE_CLIENT_ID'' = Some i \<and> i \<noteq> []
             \<and> env w ''GOOGLE_CLIENT_SECRET'' = Some s \<and> s \<noteq> []
             \<and> env w ''GOOGLE_REDIRECT_URI'' = Some u \<and> u \<noteq> []) \<longrightarrow>
      loadCredentialsWithFallback_env w = ([], Inl (Error env_not_found_message)))
   \<and> (env w ''DOPPLER_TOKEN'' = None \<or> env w ''DOPPLER_TOKEN'' = Some [] \<longrightarrow>
      loadCredentialsWithFallback_sdk w =
        ([], Inl (Error (failed_to_load_prefix @ token_not_set_message))))
   \<and> (\<forall>t x m. env w ''DOPPLER_TOKEN'' = Some t \<and> t \<noteq> []
          \<and> secrets_list w t ''home_automation'' ''prd'' = Inl x
          \<and> (x = Error m \<or> x = TypeError m \<or> x = SyntaxError m \<or> x = NonError m) \<longrightarrow>
        loadCredentialsWithFallback_sdk w =
          ([SecretsList t ''home_automation'' ''prd''], Inl (Error (failed_to_load_prefix @ m))))
   \<and> (\<forall>t r. env w ''DOPPLER_TOKEN'' = Some t \<and> t \<noteq> []
          \<and> secrets_list w t ''home_automation'' ''prd'' = Inr r
          \<and> \<not> (\<exists>ss a b d i s u. secrets r = Some ss
                \<and> map_of ss ''GOOGLE_CLIENT_ID'' = Some a \<and> computed a = Some i \<and> i \<noteq> []
                \<and> map_of ss ''GOOGLE_CLIENT_SECRET'' = Some b \<and> computed b = Some s \<and> s \<noteq> []
                \<and> map_of ss ''GOOGLE_REDIRECT_URI'' = Some d \<and> computed d = Some u \<and> u \<noteq> []) \<longrightarrow>
        loadCredentialsWithFallback_sdk w =
          ([SecretsList t ''home_automation'' ''prd''],
           Inl (Error (failed_to_load_prefix @ sdk_not_found_message))))
   \<and> failed_to_load_prefix = ''Failed to load OAuth credentials from Doppler: ''
   \<and> token_not_set_message = ''DOPPLER_TOKEN environment variable not set''
   \<and> sdk_not_found_message =
       ''Doppler OAuth credentials not found. Please ensure GOOGLE_CLIENT_ID, GOOGLE_CLIENT_SECRET, and GOOGLE_REDIRECT_URI are set in Doppler.''
   \<and> env_not_found_message =
       ''Doppler OAuth credentials not found. Please ensure GOOGLE_CLIENT_ID, GOOGLE_CLIENT_SECRET, and GOOGLE_REDIRECT_URI environment variables are set.''"
proof (intro conjI allI impI)
  assume "\<not> (\<exists>i s u. env w ''GOOGLE_CLIENT_ID'' = Some i \<and> i \<noteq> []
             \<and> env w ''GOOGLE_CLIENT_SECRET'' = Some s \<and> s \<noteq> []
             \<and> env w ''GOOGLE_REDIRECT_URI'' = Some u \<and> u \<noteq> [])"
  then show "loadCredentialsWithFallback_env w = ([], Inl (Error env_not_found_message))"
    by (cases w rule: env_cases) auto
next
  assume "env w ''DOPPLER_TOKEN'' = None \<or> env w ''DOPPLER_TOKEN'' = Some []"
  then show "loadCredentialsWithFallback_sdk w =
        ([], Inl (Error (failed_to_load_prefix @ token_not_set_message)))"
    by (rule sdk_no_token)
next
  fix t x m
  assume h: "env w ''DOPPLER_TOKEN'' = Some t \<and> t \<noteq> []
          \<and> secrets_list w t ''home_automation'' ''prd'' = Inl x
          \<and> (x = Error m \<or> x = TypeError m \<or> x = SyntaxError m \<or> x = NonError m)"
  then have "env w ''DOPPLER_TOKEN'' = Some t" "t \<noteq> []"
    "secrets_list w t ''home_automation'' ''prd'' = Inl x"
    "x = Error m \<or> x = TypeError m \<or> x = SyntaxError m \<or> x = NonError m" by simp_all
  then show "loadCredentialsWithFallback_sdk w =
          ([SecretsList t ''home_automation'' ''prd''], Inl (Error (failed_to_load_prefix @ m)))"
    by (rule sdk_throws_text)
next
  fix t r
  assume h: "env w ''DOPPLER_TOKEN'' = Some t \<and> t \<noteq> []
          \<and> secrets_list w t ''home_automation'' ''prd'' = Inr r
          \<and> \<not> (\<exists>ss a b d i s u. secrets r = Some ss
                \<and> map_of ss ''GOOGLE_CLIENT_ID'' = Some a \<and> computed a = Some i \<and> i \<noteq> []
                \<and> map_of ss ''GOOGLE_CLIENT_SECRET'' = Some b \<and> computed b = Some s \<and> s \<noteq> []
                \<and> map_of ss ''GOOGLE_REDIRECT_URI'' = Some d \<and> computed d = Some u \<and> u \<noteq> [])"
  then have "env w ''DOPPLER_TOKEN'' = Some t" "t \<noteq> []"
    "secrets_list w t ''home_automation'' ''prd'' = Inr r"
    "\<not> (\<exists>ss a b d i s u. secrets r = Some ss
                \<and> map_of ss ''GOOGLE_CLIENT_ID'' = Some a \<and> computed a = Some i \<and> i \<noteq> []
                \<and> map_of ss ''GOOGLE_CLIENT_SECRET'' = Some b \<and> computed b = Some s \<and> s \<noteq> []
                \<and> map_of ss ''GOOGLE_REDIRECT_URI'' = Some d \<and> computed d = Some u \<and> u \<noteq> [])"
    by simp_all
  then show "loadCredentialsWithFallback_sdk w =
          ([SecretsList t ''home_automation'' ''prd''],
           Inl (Error (failed_to_load_prefix @ sdk_not_found_message)))"
    by (rule sdk_not_found)
qed (simp_all add: failed_to_load_prefix_def token_not_set_message_def sdk_not_found_message_def
      env_not_found_message_def)

text \<open>
  The amended C2 at work, once for each cause: only the client id set (first revision);
  no token; a token and a service call that throws \<^verbatim>\<open>new Error("fetch failed")\<close>; a token
  and a response that lacks the redirect URI.
\<close>

theorem single_reason_failure_witness:
  "loadCredentialsWithFallback_env
     (example_world (Inl (Error ''ENOENT: no such file or directory'')) JNull
        [(''GOOGLE_CLIENT_ID'', ''id1'')] (Inl (Error ''fetch failed'')))
     = ([], Inl (Error env_not_found_message))
   \<and> loadCredentialsWithFallback_sdk
     (example_world (Inl (Error ''ENOENT: no such file or directory'')) JNull
        [(''GOOGLE_CLIENT_ID'', ''id1'')] (Inl (Error ''fetch failed'')))
     = ([], Inl (Error ''Failed to load OAuth credentials from Doppler: DOPPLER_TOKEN environment variable not set''))
   \<and> loadCredentialsWithFallback_sdk
     (example_world (Inl (Error ''ENOENT: no such file or directory'')) JNull
        [(''DOPPLER_TOKEN'', ''dp.st.token'')] (Inl (Error ''fetch failed'')))
     = ([SecretsList ''dp.st.token'' ''home_automation'' ''prd''],
        Inl (Error ''Failed to load OAuth credentials from Doppler: fetch failed''))
   \<and> loadCredentialsWithFallback_sdk
     (example_world (Inl (Error ''ENOENT: no such file or directory'')) JNull
        [(''DOPPLER_TOKEN'', ''dp.st.token'')]
        (Inr \<lparr> secrets = Some [(''GOOGLE_CLIENT_ID'', \<lparr> computed = Some ''id2'' \<rparr>),
                                (''GOOGLE_CLIENT_SECRET'', \<lparr> computed = Some ''secret2'' \<rparr>)] \<rparr>))
     = ([SecretsList ''dp.st.token'' ''home_automation'' ''prd''],
        Inl (Error (''Failed to load OAuth credentials from Doppler: '' @ sdk_not_found_message)))"
proof -
  let ?w1 = "example_world (Inl (Error ''ENOENT: no such file or directory'')) JNull
        [(''GOOGLE_CLIENT_ID'', ''id1'')] (Inl (Error ''fetch failed''))"
  let ?w2 = "example_world (Inl (Error ''ENOENT: no such file or directory'')) JNull
        [(''DOPPLER_TOKEN'', ''dp.st.token'')] (Inl (Error ''fetch failed''))"
  let ?ss = "[(''GOOGLE_CLIENT_ID'', \<lparr> computed = Some ''id2'' \<rparr>),
              (''GOOGLE_CLIENT_SECRET'', \<lparr> computed = Some ''secret2'' \<rparr>)]"
  let ?w3 = "example_world (Inl (Error ''ENOENT: no such file or directory'')) JNull
        [(''DOPPLER_TOKEN'', ''dp.st.token'')] (Inr \<lparr> secrets = Some ?ss \<rparr>)"
  note T = single_reason_failure
  have pre: "failed_to_load_prefix = ''Failed to load OAuth credentials from Doppler: ''"
    and tok: "token_not_set_message = ''DOPPLER_TOKEN environment variable not set''"
    using T [of ?w1] by blast+
  have "\<not> (\<exists>i s u. env ?w1 ''GOOGLE_CLIENT_ID'' = Some i \<and> i \<noteq> []
             \<and> env ?w1 ''GOOGLE_CLIENT_SECRET'' = Some s \<and> s \<noteq> []
             \<and> env ?w1 ''GOOGLE_REDIRECT_URI'' = Some u \<and> u \<noteq> [])"
    by (simp add: example_world_def)
  with T [of ?w1]
  have one: "loadCredentialsWithFallback_env ?w1 = ([], Inl (Error env_not_found_message))" by blast
  have "env ?w1 ''DOPPLER_TOKEN'' = None \<or> env ?w1 ''DOPPLER_TOKEN'' = Some []"
    by (simp add: example_world_def)
  with T [of ?w1]
  have "loadCredentialsWithFallback_sdk ?w1 =
        ([], Inl (Error (failed_to_load_prefix @ token_not_set_message)))" by blast
  then have two: "loadCredentialsWithFallback_sdk ?w1 =
        ([], Inl (Error ''Failed to load OAuth credentials from Doppler: DOPPLER_TOKEN environment variable not set''))"
    by (simp add: pre tok)
  have "env ?w2 ''DOPPLER_TOKEN'' = Some ''dp.st.token'' \<and> ''dp.st.token'' \<noteq> []
          \<and> secrets_list ?w2 ''dp.st.token'' ''home_automation'' ''prd'' = Inl (Error ''fetch failed'')
          \<and> (Error ''fetch failed'' = Error ''fetch failed'' \<or> Error ''fetch failed'' = TypeError ''fetch failed''
             \<or> Error ''fetch failed'' = SyntaxError ''fetch failed'' \<or> Error ''fetch failed'' = NonError ''fetch failed'')"
    by (simp add: example_world_def)
  with T [of ?w2]
  have "loadCredentialsWithFallback_sdk ?w2 =
          ([SecretsList ''dp.st.token'' ''home_automation'' ''prd''],
           Inl (Error (failed_to_load_prefix @ ''fetch failed'')))" by blast
  then have three: "loadCredentialsWithFallback_sdk ?w2 =
          ([SecretsList ''dp.st.token'' ''home_automation'' ''prd''],
           Inl (Error ''Failed to load OAuth credentials from Doppler: fetch failed''))"
    by (simp add: pre)
  have "map_of ?ss ''GOOGLE_REDIRECT_URI'' = None" by simp
  then have "env ?w3 ''DOPPLER_TOKEN'' = Some ''dp.st.token'' \<and> ''dp.st.token'' \<noteq> []
          \<and> secrets_list ?w3 ''dp.st.token'' ''home_automation'' ''prd'' = Inr \<lparr> secrets = Some ?ss \<rparr>
          \<and> \<not> (\<exists>ss a b d i s u. secrets \<lparr> secrets = Some ?ss \<rparr> = Some ss
                \<and> map_of ss ''GOOGLE_CLIENT_ID'' = Some a \<and> computed a = Some i \<and> i \<noteq> []
                \<and> map_of ss ''GOOGLE_CLIENT_SECRET'' = Some b \<and> computed b = Some s \<and> s \<noteq> []
                \<and> map_of ss ''GOOGLE_REDIRECT_URI'' = Some d \<and> computed d = Some u \<and> u \<noteq> [])"
    by (auto simp add: example_world_def)
  with T [of ?w3]
  have "loadCredentialsWithFallback_sdk ?w3 =
          ([SecretsList ''dp.st.token'' ''home_automation'' ''prd''],
           Inl (Error (failed_to_load_prefix @ sdk_not_found_message)))" by blast
  then have four: "loadCredentialsWithFallback_sdk ?w3 =
          ([SecretsList ''dp.st.token'' ''home_automation'' ''prd''],
           Inl (Error (''Failed to load OAuth credentials from Doppler: '' @ sdk_not_found_message)))"
    by (simp add: pre)
  from one two three four show ?thesis by (intro conjI)
qed

section \<open>The records that the readers produce\<close>

text \<open>
  C3 as the specification states it: every record that a source reader produces has a
  non-empty \<^verbatim>\<open>client_id\<close>, a non-empty \<^verbatim>\<open>client_secret\<close> and at least one redirect URI.
  The file reader copies the fields of a truthy \<^verbatim>\<open>installed\<close> value without looking at
  them: for \<^verbatim>\<open>{"installed":{}}\<close> it returns a record whose three fields are
  \<^verbatim>\<open>undefined\<close>.
\<close>

theorem file_record_counterexample:
  "loadCredentialsFromFile
     (example_world (Inr ''{\"installed\":{}}'') (JObj [(''installed'', JObj [])]) []
        (Inl (Error ''fetch failed'')))
   = ([ReadFile], Inr \<lparr> client_id = JUndefined, client_secret = JUndefined, redirect_uris = JUndefined \<rparr>)"
  by (simp add: example_world_def loadCredentialsFromFile_def loadCredentialsFromFile_keys_def)

text \<open>
  C3 as amended: every record that the environment reader (first revision) or the
  secrets-service reader (second revision) produces has a non-empty string as
  \<^verbatim>\<open>client_id\<close>, a non-empty string as \<^verbatim>\<open>client_secret\<close>, and a \<^verbatim>\<open>redirect_uris\<close> of
  exactly one non-empty string. Nothing is promised of a record read from the key file.
\<close>

theorem resolved_records_complete:
  assumes "snd (loadCredentialsWithFallback_env w) = Inr c \<or> snd (loadCredentialsWithFallback_sdk w) = Inr c"
  shows "\<exists>i s u. i \<noteq> [] \<and> s \<noteq> [] \<and> u \<noteq> [] \<and>
           c = \<lparr> client_id = JStr i, client_secret = JStr s, redirect_uris = JArr [JStr u] \<rparr>"
  using assms
proof
  assume "snd (loadCredentialsWithFallback_env w) = Inr c"
  then show ?thesis by (cases w rule: env_cases) auto
next
  assume "snd (loadCredentialsWithFallback_sdk w) = Inr c"
  then show ?thesis by (rule sdk_success_shape)
qed

text \<open>The amended C3 at the record that the first revision builds from three variables.\<close>

theorem resolved_records_complete_witness:
  "snd (loadCredentialsWithFallback_env
          (example_world (Inr ''{}'') (JObj [])
             [(''GOOGLE_CLIENT_ID'', ''id1''), (''GOOGLE_CLIENT_SECRET'', ''secret1''),
              (''GOOGLE_REDIRECT_URI'', ''http://x/cb''), (''NODE_ENV'', ''test'')]
             (Inl (Error ''fetch failed''))))
     = Inr \<lparr> client_id = JStr ''id1'', client_secret = JStr ''secret1'',
             redirect_uris = JArr [JStr ''http://x/cb''] \<rparr>
   \<and> (\<exists>i s u. i \<noteq> [] \<and> s \<noteq> [] \<and> u \<noteq> [] \<and>
         \<lparr> client_id = JStr ''id1'', client_secret = JStr ''secret1'',
           redirect_uris = JArr [JStr ''http://x/cb''] \<rparr>
         = \<lparr> client_id = JStr i, client_secret = JStr s, redirect_uris = JArr [JStr u] \<rparr>)"
proof -
  let ?w = "example_world (Inr ''{}'') (JObj [])
             [(''GOOGLE_CLIENT_ID'', ''id1''), (''GOOGLE_CLIENT_SECRET'', ''secret1''),
              (''GOOGLE_REDIRECT_URI'', ''http://x/cb''), (''NODE_ENV'', ''test'')]
             (Inl (Error ''fetch failed''))"
  let ?c = "\<lparr> client_id = JStr ''id1'', client_secret = JStr ''secret1'',
             redirect_uris = JArr [JStr ''http://x/cb''] \<rparr>"
  have ok: "snd (loadCredentialsWithFallback_env ?w) = Inr ?c"
    by (simp add: example_world_def loadCredentialsWithFallback_env_def process_env_def)
  then have "snd (loadCredentialsWithFallback_env ?w) = Inr ?c
             \<or> snd (loadCredentialsWithFallback_sdk ?w) = Inr ?c" ..
  from resolved_records_complete [OF this] ok show ?thesis by (intro conjI)
qed

section \<open>The environment reader\<close>

text \<open>
  C4: the first revision of \<^verbatim>\<open>loadCredentialsWithFallback\<close> succeeds exactly when
  \<^verbatim>\<open>GOOGLE_CLIENT_ID\<close>, \<^verbatim>\<open>GOOGLE_CLIENT_SECRET\<close> and \<^verbatim>\<open>GOOGLE_REDIRECT_URI\<close> are all
  set and non-empty. Then the record it returns is made of the three values: the client
  id, the client secret, and a \<^verbatim>\<open>redirect_uris\<close> that is the one-element list of the
  redirect URI. Otherwise it throws an \<^verbatim>\<open>Error\<close> with the fixed message, in which every
  variable that is unset or empty is named (the message names all three).
\<close>

theorem env_reader_contract:
  "((\<exists>c. snd (loadCredentialsWithFallback_env w) = Inr c) \<longleftrightarrow>
      (\<exists>i s u. env w ''GOOGLE_CLIENT_ID'' = Some i \<and> i \<noteq> []
             \<and> env w ''GOOGLE_CLIENT_SECRET'' = Some s \<and> s \<noteq> []
             \<and> env w ''GOOGLE_REDIRECT_URI'' = Some u \<and> u \<noteq> []))
   \<and> (\<forall>i s u. env w ''GOOGLE_CLIENT_ID'' = Some i \<and> i \<noteq> []
             \<and> env w ''GOOGLE_CLIENT_SECRET'' = Some s \<and> s \<noteq> []
             \<and> env w ''GOOGLE_REDIRECT_URI'' = Some u \<and> u \<noteq> [] \<longrightarrow>
          snd (loadCredentialsWithFallback_env w) =
            Inr \<lparr> client_id = JStr i, client_secret = JStr s, redirect_uris = JArr [JStr u] \<rparr>)
   \<and> (\<forall>c. snd (loadCredentialsWithFallback_env w) = Inr c \<longrightarrow>
          (\<exists>i s u. env w ''GOOGLE_CLIENT_ID'' = Some i \<and> i \<noteq> []
             \<and> env w ''GOOGLE_CLIENT_SECRET'' = Some s \<and> s \<noteq> []
             \<and> env w ''GOOGLE_REDIRECT_URI'' = Some u \<and> u \<noteq> []
             \<and> c = \<lparr> client_id = JStr i, client_secret = JStr s, redirect_uris = JArr [JStr u] \<rparr>))
   \<and> (\<forall>e. snd (loadCredentialsWithFallback_env w) = Inl e \<longrightarrow>
          e = Error env_not_found_message
          \<and> (\<forall>v \<in> {''GOOGLE_CLIENT_ID'', ''GOOGLE_CLIENT_SECRET'', ''GOOGLE_REDIRECT_URI''}.
                (env w v = None \<or> env w v = Some []) \<longrightarrow> sublist v env_not_found_message))"
proof (cases w rule: env_cases)
  case (ok i s u)
  then show ?thesis by auto
next
  case fail
  then show ?thesis by (auto simp add: names_all_variables)
qed

text \<open>
  C4 at work: with the three variables set the reader returns the record made of them;
  with the redirect URI unset it fails with the fixed message, which names it.
\<close>

theorem env_reader_contract_witness:
  "snd (loadCredentialsWithFallback_env
          (example_world (Inr ''{}'') (JObj [])
             [(''GOOGLE_CLIENT_ID'', ''id1''), (''GOOGLE_CLIENT_SECRET'', ''secret1''),
              (''GOOGLE_REDIRECT_URI'', ''http://x/cb'')]
             (Inl (Error ''fetch failed''))))
     = Inr \<lparr> client_id = JStr ''id1'', client_secret = JStr ''secret1'',
             redirect_uris = JArr [JStr ''http://x/cb''] \<rparr>
   \<and> snd (loadCredentialsWithFallback_env
          (example_world (Inr ''{}'') (JObj [])
             [(''GOOGLE_CLIENT_ID'', ''id1''), (''GOOGLE_CLIENT_SECRET'', ''secret1'')]
             (Inl (Error ''fetch failed''))))
     = Inl (Error env_not_found_message)
   \<and> sublist ''GOOGLE_REDIRECT_URI'' env_not_found_message"
proof -
  let ?ok = "example_world (Inr ''{}'') (JObj [])
                  [(''GOOGLE_CLIENT_ID'', ''id1''), (''GOOGLE_CLIENT_SECRET'', ''secret1''),
                   (''GOOGLE_REDIRECT_URI'', ''http://x/cb'')]
                  (Inl (Error ''fetch failed''))"
  let ?bad = "example_world (Inr ''{}'') (JObj [])
                  [(''GOOGLE_CLIENT_ID'', ''id1''), (''GOOGLE_CLIENT_SECRET'', ''secret1'')]
                  (Inl (Error ''fetch failed''))"
  have "env ?ok ''GOOGLE_CLIENT_ID'' = Some ''id1'' \<and> ''id1'' \<noteq> []
             \<and> env ?ok ''GOOGLE_CLIENT_SECRET'' = Some ''secret1'' \<and> ''secret1'' \<noteq> []
             \<and> env ?ok ''GOOGLE_REDIRECT_URI'' = Some ''http://x/cb'' \<and> ''http://x/cb'' \<noteq> []"
    by (simp add: example_world_def)
  with env_reader_contract [of ?ok]
  have first: "snd (loadCredentialsWithFallback_env ?ok)
     = Inr \<lparr> client_id = JStr ''id1'', client_secret = JStr ''secret1'',
             redirect_uris = JArr [JStr ''http://x/cb''] \<rparr>" by blast
  have unset: "env ?bad ''GOOGLE_REDIRECT_URI'' = None"
    by (simp add: example_world_def)
  then have "\<not> (\<exists>i s u. env ?bad ''GOOGLE_CLIENT_ID'' = Some i \<and> i \<noteq> []
             \<and> env ?bad ''GOOGLE_CLIENT_SECRET'' = Some s \<and> s \<noteq> []
             \<and> env ?bad ''GOOGLE_REDIRECT_URI'' = Some u \<and> u \<noteq> [])"
    by simp
  with env_reader_contract [of ?bad]
  have "\<not> (\<exists>c. snd (loadCredentialsWithFallback_env ?bad) = Inr c)" by blast
  then obtain e where e: "snd (loadCredentialsWithFallback_env ?bad) = Inl e"
    by (cases "snd (loadCredentialsWithFallback_env ?bad)") auto
  with env_reader_contract [of ?bad] unset
  have "e = Error env_not_found_message" "sublist ''GOOGLE_REDIRECT_URI'' env_not_found_message"
    by blast+
  with e first show ?thesis by simp
qed

section \<open>The secrets-service reader\<close>

text \<open>
  What the \<^verbatim>\<open>catch\<close> of the second revision does for a thrown value that can be put
  into a message. When \<^verbatim>\<open>DOPPLER_TOKEN\<close> is unset or empty the failure is the prefixed
  token message and the service is not called (no event at all). When the service call
  throws an \<^verbatim>\<open>Error\<close> with message \<open>m\<close>, or a value whose string conversion is \<open>m\<close>,
  the failure is a new \<^verbatim>\<open>Error\<close> with the prefix followed by \<open>m\<close>, and not the thrown
  value itself.
\<close>

lemma sdk_failures_wrapped:
  "((env w ''DOPPLER_TOKEN'' = None \<or> env w ''DOPPLER_TOKEN'' = Some []) \<longrightarrow>
      loadCredentialsWithFallback_sdk w =
        ([], Inl (Error (failed_to_load_prefix @ token_not_set_message))))
   \<and> (\<forall>t x m. env w ''DOPPLER_TOKEN'' = Some t \<and> t \<noteq> []
          \<and> secrets_list w t ''home_automation'' ''prd'' = Inl x
          \<and> (x = Error m \<or> x = TypeError m \<or> x = SyntaxError m \<or> x = NonError m) \<longrightarrow>
        loadCredentialsWithFallback_sdk w =
          ([SecretsList t ''home_automation'' ''prd''],
           Inl (Error (failed_to_load_prefix @ m)))
        \<and> Error (failed_to_load_prefix @ m) \<noteq> x)"
proof (intro conjI allI impI)
  fix t x m
  assume h: "env w ''DOPPLER_TOKEN'' = Some t \<and> t \<noteq> []
          \<and> secrets_list w t ''home_automation'' ''prd'' = Inl x
          \<and> (x = Error m \<or> x = TypeError m \<or> x = SyntaxError m \<or> x = NonError m)"
  then have "env w ''DOPPLER_TOKEN'' = Some t" "t \<noteq> []"
    "secrets_list w t ''home_automation'' ''prd'' = Inl x"
    "x = Error m \<or> x = TypeError m \<or> x = SyntaxError m \<or> x = NonError m" by simp_all
  then show "loadCredentialsWithFallback_sdk w =
          ([SecretsList t ''home_automation'' ''prd''], Inl (Error (failed_to_load_prefix @ m)))"
    by (rule sdk_throws_text)
  from h show "Error (failed_to_load_prefix @ m) \<noteq> x"
    by (intro wrapped_differs) simp
qed (simp add: sdk_no_token)

text \<open>
  C5: every failure of the secrets-service reader is normalised at its boundary, and
  whatever the service call throws is caught and wrapped again, never passed on as it is.
  The \<^verbatim>\<open>catch\<close> on line 134 builds the new message with a template literal, and the
  conversion of the caught value to a string can itself throw: for a \<^verbatim>\<open>Symbol\<close> it
  throws \<^verbatim>\<open>TypeError: Cannot convert a Symbol value to a string\<close>. With a token set and
  a service call that throws a \<^verbatim>\<open>Symbol\<close>, that \<^verbatim>\<open>TypeError\<close> leaves
  \<^verbatim>\<open>loadCredentialsWithFallback\<close>: it is not an \<^verbatim>\<open>Error\<close> made by the \<^verbatim>\<open>catch\<close>, and
  its message has neither the prefix nor anything of the thrown value.
\<close>

theorem symbol_escapes_unwrapped:
  "loadCredentialsWithFallback_sdk
     (example_world (Inr ''{}'') (JObj []) [(''DOPPLER_TOKEN'', ''dp.st.token'')]
        (Inl (Unconvertible (TypeError ''Cannot convert a Symbol value to a string''))))
     = ([SecretsList ''dp.st.token'' ''home_automation'' ''prd''],
        Inl (TypeError ''Cannot convert a Symbol value to a string''))
   \<and> \<not> sublist ''Failed to load OAuth credentials from Doppler'' ''Cannot convert a Symbol value to a string''"
proof (intro conjI)
  show "\<not> sublist ''Failed to load OAuth credentials from Doppler'' ''Cannot convert a Symbol value to a string''"
    by code_simp
qed (simp add: example_world_def loadCredentialsWithFallback_sdk_def
      loadCredentialsWithFallback_sdk_try_def throw_wrapped_simps)

section \<open>The file reader\<close>

text \<open>
  C6 as the specification states it: every document with an \<^verbatim>\<open>installed\<close> field gives a
  record with the fields of that field's object. The test on line 9 is for a truthy
  value, not for the presence of the field: the document \<^verbatim>\<open>{"installed":null}\<close> has
  the field and is rejected with the format error.
\<close>

theorem installed_present_counterexample:
  "loadCredentialsFromFile
     (example_world (Inr ''{\"installed\":null}'') (JObj [(''installed'', JNull)]) []
        (Inl (Error ''fetch failed'')))
   = ([ReadFile], Inl (Error invalid_format_message))"
  by (simp add: example_world_def loadCredentialsFromFile_def loadCredentialsFromFile_keys_def)

text \<open>
  C6 as amended: for every parsed document whose \<^verbatim>\<open>installed\<close> field is truthy (any
  value other than \<^verbatim>\<open>null\<close>, \<^verbatim>\<open>false\<close>, \<^verbatim>\<open>0\<close> and the empty string), the file reader
  returns a record whose \<^verbatim>\<open>client_id\<close>, \<^verbatim>\<open>client_secret\<close> and \<^verbatim>\<open>redirect_uris\<close> are
  the fields of that value as they are, \<^verbatim>\<open>undefined\<close> where it has none; nothing is
  defaulted or changed.
\<close>

theorem installed_verbatim:
  assumes "keysFile w = Inr content" and "JSON_parse w content = Inr (JObj kvs)"
    and "map_of kvs ''installed'' = Some inst" and "truthy inst"
  shows "loadCredentialsFromFile w =
           ([ReadFile], Inr \<lparr> client_id = getProp inst ''client_id'',
                               client_secret = getProp inst ''client_secret'',
                               redirect_uris = getProp inst ''redirect_uris'' \<rparr>)"
  using assms by (simp add: loadCredentialsFromFile_parsed loadCredentialsFromFile_keys_def)

text \<open>The amended C6 on a document as the OAuth console exports it.\<close>

theorem installed_verbatim_witness:
  "loadCredentialsFromFile
     (example_world
        (Inr ''{\"installed\":{\"client_id\":\"id\",\"client_secret\":\"s\",\"redirect_uris\":[\"http://x/cb\",\"http://y/cb\"]}}'')
        (JObj [(''installed'',
                JObj [(''client_id'', JStr ''id''), (''client_secret'', JStr ''s''),
                      (''redirect_uris'', JArr [JStr ''http://x/cb'', JStr ''http://y/cb''])])])
        [] (Inl (Error ''fetch failed'')))
   = ([ReadFile], Inr \<lparr> client_id = JStr ''id'', client_secret = JStr ''s'',
                         redirect_uris = JArr [JStr ''http://x/cb'', JStr ''http://y/cb''] \<rparr>)"
proof -
  let ?inst = "JObj [(''client_id'', JStr ''id''), (''client_secret'', JStr ''s''),
                     (''redirect_uris'', JArr [JStr ''http://x/cb'', JStr ''http://y/cb''])]"
  let ?content = "''{\"installed\":{\"client_id\":\"id\",\"client_secret\":\"s\",\"redirect_uris\":[\"http://x/cb\",\"http://y/cb\"]}}''"
  let ?w = "example_world (Inr ?content) (JObj [(''installed'', ?inst)]) [] (Inl (Error ''fetch failed''))"
  have "keysFile ?w = Inr ?content"
    and "JSON_parse ?w ?content = Inr (JObj [(''installed'', ?inst)])"
    and "map_of [(''installed'', ?inst)] ''installed'' = Some ?inst"
    and "truthy ?inst"
    by (simp_all add: example_world_def)
  from installed_verbatim [OF this] show ?thesis by simp
qed

text \<open>
  C7 as the specification states it: a flat document with \<^verbatim>\<open>client_id\<close> and
  \<^verbatim>\<open>client_secret\<close> gets the default redirect URI when it has no \<^verbatim>\<open>redirect_uris\<close>
  field, and a \<^verbatim>\<open>redirect_uris\<close> that is present is passed through. Both halves test for
  a truthy value instead: a \<^verbatim>\<open>redirect_uris\<close> that is present and \<^verbatim>\<open>null\<close> is replaced
  by the default, and a document whose \<^verbatim>\<open>client_id\<close> is present and empty gets no
  record at all.
\<close>

theorem flat_present_counterexample:
  "loadCredentialsFromFile
     (example_world (Inr ''{\"client_id\":\"id\",\"client_secret\":\"s\",\"redirect_uris\":null}'')
        (JObj [(''client_id'', JStr ''id''), (''client_secret'', JStr ''s''), (''redirect_uris'', JNull)])
        [] (Inl (Error ''fetch failed'')))
   = ([ReadFile], Inr \<lparr> client_id = JStr ''id'', client_secret = JStr ''s'',
                         redirect_uris = JArr [JStr ''http://localhost:3000/oauth2callback''] \<rparr>)
   \<and> loadCredentialsFromFile
     (example_world (Inr ''{\"client_id\":\"\",\"client_secret\":\"s\"}'')
        (JObj [(''client_id'', JStr ''''), (''client_secret'', JStr ''s'')])
        [] (Inl (Error ''fetch failed'')))
   = ([ReadFile], Inl (Error invalid_format_message))"
  by (simp add: example_world_def loadCredentialsFromFile_def loadCredentialsFromFile_keys_def
      default_redirect_uris_def)

text \<open>
  C7 as amended: for every parsed document whose \<^verbatim>\<open>installed\<close> field is absent or falsy
  and whose top-level \<^verbatim>\<open>client_id\<close> and \<^verbatim>\<open>client_secret\<close> are truthy, the file reader
  returns a record with these two values and, as \<^verbatim>\<open>redirect_uris\<close>, the document's
  \<^verbatim>\<open>redirect_uris\<close> when that is truthy (an empty array included) and
  \<^verbatim>\<open>["http://localhost:3000/oauth2callback"]\<close> when it is absent or falsy.
\<close>

theorem flat_redirect_default:
  assumes "keysFile w = Inr content" and "JSON_parse w content = Inr (JObj kvs)"
    and "\<not> truthy (getProp (JObj kvs) ''installed'')"
    and "map_of kvs ''client_id'' = Some i" and "truthy i"
    and "map_of kvs ''client_secret'' = Some s" and "truthy s"
  shows "loadCredentialsFromFile w =
           ([ReadFile],
            Inr \<lparr> client_id = i, client_secret = s,
                  redirect_uris =
                    (case map_of kvs ''redirect_uris'' of
                       None \<Rightarrow> JArr [JStr ''http://localhost:3000/oauth2callback'']
                     | Some r \<Rightarrow> if truthy r then r
                                 else JArr [JStr ''http://localhost:3000/oauth2callback'']) \<rparr>)"
proof -
  have "truthy (getProp (JObj kvs) ''client_id'')" "truthy (getProp (JObj kvs) ''client_secret'')"
    using assms(4-7) by simp_all
  from flat_shape_keys [OF assms(3) this] show ?thesis
    using assms(1,2,4,6)
    by (simp add: loadCredentialsFromFile_parsed default_redirect_uris_def split: option.split)
qed

text \<open>The amended C7 on a flat document without \<^verbatim>\<open>redirect_uris\<close>.\<close>

theorem flat_redirect_default_witness:
  "loadCredentialsFromFile
     (example_world (Inr ''{\"client_id\":\"id\",\"client_secret\":\"s\"}'')
        (JObj [(''client_id'', JStr ''id''), (''client_secret'', JStr ''s'')]) []
        (Inl (Error ''fetch failed'')))
   = ([ReadFile], Inr \<lparr> client_id = JStr ''id'', client_secret = JStr ''s'',
                         redirect_uris = JArr [JStr ''http://localhost:3000/oauth2callback''] \<rparr>)"
proof -
  let ?kvs = "[(''client_id'', JStr ''id''), (''client_secret'', JStr ''s'')]"
  let ?content = "''{\"client_id\":\"id\",\"client_secret\":\"s\"}''"
  let ?w = "example_world (Inr ?content) (JObj ?kvs) [] (Inl (Error ''fetch failed''))"
  have "keysFile ?w = Inr ?content"
    and "JSON_parse ?w ?content = Inr (JObj ?kvs)"
    and "\<not> truthy (getProp (JObj ?kvs) ''installed'')"
    and "map_of ?kvs ''client_id'' = Some (JStr ''id'')" and "truthy (JStr ''id'')"
    and "map_of ?kvs ''client_secret'' = Some (JStr ''s'')" and "truthy (JStr ''s'')"
    by (simp_all add: example_world_def)
  from flat_redirect_default [OF this] show ?thesis by simp
qed

text \<open>
  C8: every parsed document that matches neither shape fails with the format error, whose
  message names both shapes. The key file whose content is \<^verbatim>\<open>null\<close> is such a document
  (it has no field at all), but reading \<^verbatim>\<open>keys.installed\<close> on line 9 throws a
  \<^verbatim>\<open>TypeError\<close> before any shape is tested, and its message names neither shape. For
  every other such document the format error is thrown (\<open>unrecognised_shape_keys\<close>).
\<close>

theorem null_document_type_error:
  "loadCredentialsFromFile (example_world (Inr ''null'') JNull [] (Inl (Error ''fetch failed'')))
     = ([ReadFile], Inl (TypeError ''Cannot read properties of null (reading 'installed')''))
   \<and> TypeError ''Cannot read properties of null (reading 'installed')'' \<noteq> Error invalid_format_message
   \<and> \<not> sublist ''\"installed\" object'' ''Cannot read properties of null (reading 'installed')''
   \<and> \<not> sublist ''direct client_id/client_secret fields''
          ''Cannot read properties of null (reading 'installed')''"
proof (intro conjI)
  show "\<not> sublist ''\"installed\" object'' ''Cannot read properties of null (reading 'installed')''"
    by code_simp
  show "\<not> sublist ''direct client_id/client_secret fields''
          ''Cannot read properties of null (reading 'installed')''"
    by code_simp
qed (simp_all add: example_world_def loadCredentialsFromFile_def loadCredentialsFromFile_keys_def)

section \<open>Empty strings in a flat document\<close>

text \<open>
  C10: for every flat document (no truthy \<^verbatim>\<open>installed\<close>) whose top-level \<^verbatim>\<open>client_id\<close>
  or \<^verbatim>\<open>client_secret\<close> is present and is the empty string, the file reader fails with
  the format error, whose message names both accepted shapes and is not the message about
  missing credentials: line 13 tests the two fields for being truthy, not for being there.
\<close>

theorem empty_string_invalid_format:
  assumes "keysFile w = Inr content" and "JSON_parse w content = Inr (JObj kvs)"
    and "\<not> truthy (getProp (JObj kvs) ''installed'')"
    and "map_of kvs ''client_id'' = Some (JStr '''') \<or> map_of kvs ''client_secret'' = Some (JStr '''')"
  shows "loadCredentialsFromFile w = ([ReadFile], Inl (Error invalid_format_message))
         \<and> sublist ''\"installed\" object'' invalid_format_message
         \<and> sublist ''direct client_id/client_secret fields'' invalid_format_message
         \<and> invalid_format_message \<noteq> missing_message"
proof -
  have "\<not> (truthy (getProp (JObj kvs) ''client_id'') \<and> truthy (getProp (JObj kvs) ''client_secret''))"
    using assms(4) by auto
  with assms(3) have "loadCredentialsFromFile_keys (JObj kvs) = Inl (Error invalid_format_message)"
    by (intro unrecognised_shape_keys) simp_all
  moreover have "invalid_format_message \<noteq> missing_message"
    by (simp add: invalid_format_message_def missing_message_def)
  ultimately show ?thesis
    using assms(1,2) by (simp add: loadCredentialsFromFile_parsed names_both_shapes)
qed

text \<open>C10 on a flat document whose client secret is the empty string.\<close>

theorem empty_string_invalid_format_witness:
  "loadCredentialsFromFile
     (example_world (Inr ''{\"client_id\":\"id\",\"client_secret\":\"\"}'')
        (JObj [(''client_id'', JStr ''id''), (''client_secret'', JStr '''')])
        [] (Inl (Error ''fetch failed'')))
   = ([ReadFile], Inl (Error invalid_format_message))"
proof -
  let ?kvs = "[(''client_id'', JStr ''id''), (''client_secret'', JStr '''')]"
  let ?content = "''{\"client_id\":\"id\",\"client_secret\":\"\"}''"
  let ?w = "example_world (Inr ?content) (JObj ?kvs) [] (Inl (Error ''fetch failed''))"
  have "keysFile ?w = Inr ?content"
    and "JSON_parse ?w ?content = Inr (JObj ?kvs)"
    and "\<not> truthy (getProp (JObj ?kvs) ''installed'')"
    and "map_of ?kvs ''client_id'' = Some (JStr '''') \<or> map_of ?kvs ''client_secret'' = Some (JStr '''')"
    by (simp_all add: example_world_def)
  from empty_string_invalid_format [OF this] show ?thesis by simp
qed

end
